theory Spec2Isabelle
  imports Complex_Main
begin

section \<open>Python values, exceptions and calendar dates\<close>

text \<open>
  The program is \<^verbatim>\<open>gists_gone/gists_gone.py\<close>. Exceptions are values: a function
  that can raise returns \<open>py_error + 'a\<close>. \<open>Raised c msg\<close> is an explicit
  \<^verbatim>\<open>raise c(msg)\<close> of the program; \<open>Lib c\<close> is an exception of class \<open>c\<close>
  raised inside the interpreter or a library call.
\<close>

datatype exn = TypeError | ValueError | KeyError | IndexError | StopIteration
  | AttributeError | UnboundLocalError | HTTPError

datatype py_error = Raised exn string | Lib exn

fun exn_class :: "py_error \<Rightarrow> exn" where
  "exn_class (Raised c msg) = c"
| "exn_class (Lib c) = c"

text \<open>
  \<^verbatim>\<open>datetime.date\<close> and \<^verbatim>\<open>datetime.datetime\<close>. Python compares dates as the
  tuples (year, month, day); \<open>date_le a b\<close> is \<^verbatim>\<open>a <= b\<close>.
\<close>

datatype date = Date (year: nat) (month: nat) (day: nat)

datatype datetime = Datetime (date_of: date) (hour: nat) (minute: nat) (second: nat)

definition date_le :: "date \<Rightarrow> date \<Rightarrow> bool" where
  "date_le a b \<longleftrightarrow>
     year a < year b \<or>
     (year a = year b \<and> (month a < month b \<or> (month a = month b \<and> day a \<le> day b)))"

text \<open>
  \<^verbatim>\<open>datetime.strptime(value, format)\<close> belongs to the standard library, not to the
  program: the functions that call it take it as a parameter.
\<close>

type_synonym strptime = "string \<Rightarrow> string \<Rightarrow> py_error + datetime"

section \<open>The date-range parser\<close>

text \<open>
  \<^verbatim>\<open>
  def parse_date_arguments(date_arguments):
      if len(date_arguments) == 3:
          raise TypeError(
              "Too many arguments passed to the -dr flag. Only pass max 2 dates."
          )
      dates = []
      for argument in date_arguments:
          try:
              date = datetime.strptime(argument, "%Y-%m-%d").date()
              dates.append(date)
          except ValueError as error:
              raise ValueError(
                  "Please pass a date in YYYY-MM-DD format to the -dr argument."
              ) from error
      return dates
  \<close>
  The loop is \<open>parse_dates_loop\<close>, with \<open>dates\<close> as its accumulator. Only a
  \<^verbatim>\<open>ValueError\<close> of \<^verbatim>\<open>strptime\<close> is caught and replaced.
\<close>

fun parse_dates_loop :: "strptime \<Rightarrow> string list \<Rightarrow> date list \<Rightarrow> py_error + date list" where
  "parse_dates_loop strptime [] dates = Inr dates"
| "parse_dates_loop strptime (argument # rest) dates =
     (case strptime argument ''%Y-%m-%d'' of
        Inr dt \<Rightarrow> parse_dates_loop strptime rest (dates @ [date_of dt])
      | Inl e \<Rightarrow>
          if exn_class e = ValueError
          then Inl (Raised ValueError ''Please pass a date in YYYY-MM-DD format to the -dr argument.'')
          else Inl e)"

definition parse_date_arguments :: "strptime \<Rightarrow> string list \<Rightarrow> py_error + date list" where
  "parse_date_arguments strptime date_arguments =
     (if length date_arguments = 3
      then Inl (Raised TypeError ''Too many arguments passed to the -dr flag. Only pass max 2 dates.'')
      else parse_dates_loop strptime date_arguments [])"

section \<open>JSON values as Python reads them\<close>

text \<open>
  \<^verbatim>\<open>response.json()\<close> gives \<^verbatim>\<open>None\<close>, booleans, integers, floats, strings, lists
  and dicts. A dict is an association list in insertion order; where a key is bound
  twice the first binding stands for the dict's entry. The payload of \<open>JFloat\<close> is
  the value of the float.
\<close>

datatype json = JNull | JBool bool | JInt int | JFloat real | JStr string
  | JArr "json list" | JObj "(string \<times> json) list"

text \<open>Truth value testing, as in \<^verbatim>\<open>if visibility:\<close>.\<close>

fun truthy :: "json \<Rightarrow> bool" where
  "truthy JNull = False"
| "truthy (JBool b) = b"
| "truthy (JInt i) = (i \<noteq> 0)"
| "truthy (JFloat x) = (x \<noteq> 0)"
| "truthy (JStr s) = (s \<noteq> [])"
| "truthy (JArr xs) = (xs \<noteq> [])"
| "truthy (JObj kvs) = (kvs \<noteq> [])"

text \<open>
  \<^verbatim>\<open>iter(x)\<close>, as the list of the items it yields: the elements of a list, the
  keys of a dict, the characters of a string; other values are not iterable.
  \<^verbatim>\<open>next(iter(x))\<close> is the first item, or \<^verbatim>\<open>StopIteration\<close>.
\<close>

fun py_iter :: "json \<Rightarrow> py_error + json list" where
  "py_iter (JArr xs) = Inr xs"
| "py_iter (JObj kvs) = Inr (map (\<lambda>kv. JStr (fst kv)) kvs)"
| "py_iter (JStr s) = Inr (map (\<lambda>c. JStr [c]) s)"
| "py_iter _ = Inl (Lib TypeError)"

definition py_next_iter :: "json \<Rightarrow> py_error + json" where
  "py_next_iter x =
     (case py_iter x of
        Inl e \<Rightarrow> Inl e
      | Inr [] \<Rightarrow> Inl (Lib StopIteration)
      | Inr (y # ys) \<Rightarrow> Inr y)"

text \<open>
  \<^verbatim>\<open>x[key]\<close>. A dict of JSON has string keys only: another hashable key is a
  \<^verbatim>\<open>KeyError\<close>, a list or a dict as key is unhashable. A list or a string takes an
  integer index (a boolean counts as 0 or 1), negative from the end.
\<close>

definition py_index :: "'a list \<Rightarrow> int \<Rightarrow> py_error + 'a" where
  "py_index xs i =
     (if 0 \<le> i \<and> i < int (length xs) then Inr (xs ! nat i)
      else if i < 0 \<and> - int (length xs) \<le> i then Inr (xs ! nat (int (length xs) + i))
      else Inl (Lib IndexError))"

fun py_getitem :: "json \<Rightarrow> json \<Rightarrow> py_error + json" where
  "py_getitem (JObj kvs) (JStr k) =
     (case map_of kvs k of None \<Rightarrow> Inl (Lib KeyError) | Some v \<Rightarrow> Inr v)"
| "py_getitem (JObj kvs) (JArr ys) = Inl (Lib TypeError)"
| "py_getitem (JObj kvs) (JObj ys) = Inl (Lib TypeError)"
| "py_getitem (JObj kvs) key = Inl (Lib KeyError)"
| "py_getitem (JArr xs) (JInt i) = py_index xs i"
| "py_getitem (JArr xs) (JBool b) = py_index xs (if b then 1 else 0)"
| "py_getitem (JArr xs) key = Inl (Lib TypeError)"
| "py_getitem (JStr s) (JInt i) = map_sum (\<lambda>e. e) (\<lambda>c. JStr [c]) (py_index s i)"
| "py_getitem (JStr s) (JBool b) =
     map_sum (\<lambda>e. e) (\<lambda>c. JStr [c]) (py_index s (if b then 1 else 0))"
| "py_getitem (JStr s) key = Inl (Lib TypeError)"
| "py_getitem x key = Inl (Lib TypeError)"

text \<open>\<^verbatim>\<open>x.get(key)\<close>: a method of dicts only; \<^verbatim>\<open>None\<close> for a missing key.\<close>

fun py_get :: "json \<Rightarrow> string \<Rightarrow> py_error + json" where
  "py_get (JObj kvs) k = Inr (case map_of kvs k of None \<Rightarrow> JNull | Some v \<Rightarrow> v)"
| "py_get x k = Inl (Lib AttributeError)"

section \<open>The record normalizer\<close>

text \<open>
  \<^verbatim>\<open>Gist = namedtuple("Gist", ["id", "visibility", "language", "created_date"])\<close>.
  The tuple is untyped: the record is polymorphic in the types of the id and of the
  language label, which the program only stores and compares for equality. Equality
  is that of the type; for the strings the API sends it is Python's \<^verbatim>\<open>==\<close>. The
  field \<^verbatim>\<open>id\<close> is \<open>gist_id\<close> here.
\<close>

record ('i, 'l) Gist =
  gist_id :: 'i
  visibility :: string
  language :: 'l
  created_date :: date

text \<open>
  \<^verbatim>\<open>
  def create_gists(json):
      gists = []
      for raw_gist in json:
          if (
              languages := raw_gist["files"][next(iter(raw_gist["files"]))]["language"]
          ) is None:
              languages = "Unknown"
          visibility = raw_gist.get("public")
          date_created = datetime.strptime(
              raw_gist["created_at"], "%Y-%m-%dT%H:%M:%SZ"  # ISO 8601 format.
          ).date()
          if visibility:
              visibility = "public"
          else:
              visibility = "secret"

          gist = Gist(raw_gist.get("id"), visibility, languages, date_created)
          gists.append(gist)
      return gists
  \<close>
  \<open>create_gist\<close> is the body of the loop for one \<^verbatim>\<open>raw_gist\<close>, in the order in
  which Python evaluates it; \<open>create_gists_loop\<close> is the loop, with \<open>gists\<close> as
  its accumulator. \<^verbatim>\<open>strptime\<close> raises \<^verbatim>\<open>TypeError\<close> on a value that is not a
  string.
\<close>

definition create_gist :: "strptime \<Rightarrow> json \<Rightarrow> py_error + (json, json) Gist" where
  "create_gist strptime raw_gist =
     (case py_getitem raw_gist (JStr ''files'') of Inl e \<Rightarrow> Inl e | Inr files \<Rightarrow>
     (case py_next_iter files of Inl e \<Rightarrow> Inl e | Inr first_key \<Rightarrow>
     (case py_getitem files first_key of Inl e \<Rightarrow> Inl e | Inr file \<Rightarrow>
     (case py_getitem file (JStr ''language'') of Inl e \<Rightarrow> Inl e | Inr label \<Rightarrow>
     (let languages = (if label = JNull then JStr ''Unknown'' else label) in
     (case py_get raw_gist ''public'' of Inl e \<Rightarrow> Inl e | Inr public \<Rightarrow>
     (case py_getitem raw_gist (JStr ''created_at'') of Inl e \<Rightarrow> Inl e | Inr created_at \<Rightarrow>
     (case (case created_at of
              JStr s \<Rightarrow> strptime s ''%Y-%m-%dT%H:%M:%SZ''
            | _ \<Rightarrow> Inl (Lib TypeError)) of Inl e \<Rightarrow> Inl e | Inr dt \<Rightarrow>
     (let date_created = date_of dt;
          visibility = (if truthy public then ''public'' else ''secret'') in
     (case py_get raw_gist ''id'' of Inl e \<Rightarrow> Inl e | Inr ident \<Rightarrow>
        Inr \<lparr>gist_id = ident, visibility = visibility, language = languages,
             created_date = date_created\<rparr>))))))))))"

fun create_gists_loop ::
  "strptime \<Rightarrow> json list \<Rightarrow> (json, json) Gist list \<Rightarrow> py_error + (json, json) Gist list" where
  "create_gists_loop strptime [] gists = Inr gists"
| "create_gists_loop strptime (raw_gist # rest) gists =
     (case create_gist strptime raw_gist of
        Inl e \<Rightarrow> Inl e
      | Inr gist \<Rightarrow> create_gists_loop strptime rest (gists @ [gist]))"

definition create_gists :: "strptime \<Rightarrow> json \<Rightarrow> py_error + (json, json) Gist list" where
  "create_gists strptime json =
     (case py_iter json of
        Inl e \<Rightarrow> Inl e
      | Inr raw_gists \<Rightarrow> create_gists_loop strptime raw_gists [])"

section \<open>The filter engine\<close>

text \<open>
  \<^verbatim>\<open>relevant_args\<close> is the list \<^verbatim>\<open>[args.visibility, args.languages, args.date_range]\<close>.
  Each entry is \<^verbatim>\<open>None\<close> or the value of its option: a string for \<^verbatim>\<open>-v\<close>, a list of
  language labels for \<^verbatim>\<open>-l\<close>, a list of dates for \<^verbatim>\<open>-dr\<close> (after
  \<^verbatim>\<open>parse_date_arguments\<close>).
\<close>

datatype 'l argument = Visibility string | Languages "'l list" | Dates "date list"

text \<open>
  \<^verbatim>\<open>
  def filter_gists(relevant_args, gists):
      gist_ids = []
      for index, argument in enumerate(relevant_args):
          matched_ids = []
          for gist in gists:
              if (
                  argument is None
              ):  # All Gists eligible if there is no argument for this option.
                  matched_ids.append(gist.id)
                  continue
              # Visiblity.
              if index == 0 and argument == gist.visibility:
                  matched_ids.append(gist.id)
              # Languages.
              if index == 1 and isinstance(argument, list):
                  if gist.language in argument:
                      matched_ids.append(gist.id)
              # Date range
              if index == 2 and isinstance(argument, list):
                  if len(argument) == 1:
                      if gist.created_date == argument[0]:
                          matched_ids.append(gist.id)
                  else:
                      if (
                          gist.created_date >= argument[0]
                          and gist.created_date <= argument[1]
                      ):
                          matched_ids.append(gist.id)
          gist_ids.append(matched_ids)

      gist_ids = set(gist_ids[0]).intersection(*gist_ids[1:])
      return list(gist_ids)
  \<close>
  \<open>gist_matches index argument gist\<close> is the three tests of the inner loop's body
  for an argument that is not \<^verbatim>\<open>None\<close>: whether the id is appended, or the exception.
  The tests are positional, so a value at another position than its own is modelled
  too: a list never equals a string, a label never equals a date, comparing a date
  with a label by \<^verbatim>\<open>>=\<close> is a \<^verbatim>\<open>TypeError\<close>, and \<^verbatim>\<open>argument[0]\<close> on an empty
  list is an \<^verbatim>\<open>IndexError\<close>.
\<close>

fun gist_matches :: "nat \<Rightarrow> 'l argument \<Rightarrow> ('i, 'l) Gist \<Rightarrow> py_error + bool" where
  "gist_matches index (Visibility v) gist = Inr (index = 0 \<and> v = visibility gist)"
| "gist_matches index (Languages ls) gist =
     (if index = 1 then Inr (language gist \<in> set ls)
      else if index = 2 then
        (if length ls = 1 then Inr False
         else if length ls = 0 then Inl (Lib IndexError)
         else Inl (Lib TypeError))
      else Inr False)"
| "gist_matches index (Dates ds) gist =
     (if index = 2 then
        (if length ds = 1 then Inr (created_date gist = ds ! 0)
         else if length ds = 0 then Inl (Lib IndexError)
         else Inr (date_le (ds ! 0) (created_date gist) \<and> date_le (created_date gist) (ds ! 1)))
      else Inr False)"

text \<open>The inner loop, with \<open>matched_ids\<close> as its accumulator.\<close>

fun match_loop ::
  "nat \<Rightarrow> 'l argument option \<Rightarrow> ('i, 'l) Gist list \<Rightarrow> 'i list \<Rightarrow> py_error + 'i list" where
  "match_loop index argument [] matched_ids = Inr matched_ids"
| "match_loop index argument (gist # gists) matched_ids =
     (case argument of
        None \<Rightarrow> match_loop index argument gists (matched_ids @ [gist_id gist])
      | Some a \<Rightarrow>
          (case gist_matches index a gist of
             Inl e \<Rightarrow> Inl e
           | Inr b \<Rightarrow>
               match_loop index argument gists
                 (if b then matched_ids @ [gist_id gist] else matched_ids)))"

text \<open>The outer loop over \<^verbatim>\<open>enumerate(relevant_args)\<close>, with \<open>gist_ids\<close> as its accumulator.\<close>

fun filter_loop ::
  "nat \<Rightarrow> 'l argument option list \<Rightarrow> ('i, 'l) Gist list \<Rightarrow> 'i list list \<Rightarrow>
   py_error + 'i list list" where
  "filter_loop index [] gists gist_ids = Inr gist_ids"
| "filter_loop index (argument # rest) gists gist_ids =
     (case match_loop index argument gists [] of
        Inl e \<Rightarrow> Inl e
      | Inr matched_ids \<Rightarrow> filter_loop (Suc index) rest gists (gist_ids @ [matched_ids]))"

text \<open>
  The result is the set: \<^verbatim>\<open>list(gist_ids)\<close> lists it in an order Python does not
  specify. \<^verbatim>\<open>gist_ids[0]\<close> is an \<^verbatim>\<open>IndexError\<close> when \<^verbatim>\<open>relevant_args\<close> is empty.
\<close>

definition filter_gists ::
  "'l argument option list \<Rightarrow> ('i, 'l) Gist list \<Rightarrow> py_error + 'i set" where
  "filter_gists relevant_args gists =
     (case filter_loop 0 relevant_args gists [] of
        Inl e \<Rightarrow> Inl e
      | Inr [] \<Rightarrow> Inl (Lib IndexError)
      | Inr (first # others) \<Rightarrow> Inr (fold (\<lambda>ids s. s \<inter> set ids) others (set first)))"

section \<open>Effects: messages, prompts, waits and network calls\<close>

text \<open>
  The run of an orchestrator is the list of its effects in order, with its result.
  \<open>Print\<close> is a call of \<^verbatim>\<open>print\<close> or \<^verbatim>\<open>rich.print\<close>: \<open>NoGistsEligible\<close> is
  ``No gists are eligible for deletion.'', \<open>AreYouSure\<close> the question whether to
  proceed, \<open>WillBeDeleted n\<close> the line ``n gists will be deleted.'' and
  \<open>GistsDeleted\<close> is ``Gists have been deleted!''. \<open>Input p\<close> is \<^verbatim>\<open>input(p)\<close>,
  \<open>Sleep n\<close> is \<^verbatim>\<open>sleep(n)\<close>, \<open>Get per_page page\<close> is the \<^verbatim>\<open>requests.get\<close> of a
  page and \<open>Delete i\<close> is the \<^verbatim>\<open>requests.delete\<close> of the gist \<open>i\<close>. The progress
  bar only renders; it is left out.
\<close>

datatype message = NoGistsEligible | AreYouSure | WillBeDeleted nat | GistsDeleted

datatype 'i event = Print message | Input string | Sleep nat | Get nat nat | Delete 'i

text \<open>\<^verbatim>\<open>response.raise_for_status()\<close>: an \<^verbatim>\<open>HTTPError\<close> for a status from 400 to 599.\<close>

definition raise_for_status :: "nat \<Rightarrow> py_error + unit" where
  "raise_for_status status_code =
     (if 400 \<le> status_code \<and> status_code < 600 then Inl (Lib HTTPError) else Inr ())"

section \<open>The deletion orchestrator\<close>

text \<open>
  The API client is a parameter: \<open>requests_delete sent i\<close> is what
  \<^verbatim>\<open>requests.delete\<close> does for the gist \<open>i\<close> after the delete calls for \<open>sent\<close>:
  it raises, or it returns a response with a status code. \<open>answer\<close> is the string
  that \<^verbatim>\<open>input\<close> returns.
  \<^verbatim>\<open>
  def delete_gists(args, gists):
      if len(gists) == 0:
          print("No gists are eligible for deletion.")
          return
      if not args.force:
          rich.print(...)
          rich.print(...)
          answer = input("[Y/n] ")
          if answer not in ("Yes", "Y", "y"):
              return
      with alive_bar(len(gists)) as progress_bar:
          progress_bar.title("Deleting gists...")
          for gist in gists:
              sleep(1)
              response = requests.delete(
                  f"https://api.github.com/gists/{gist}",
                  headers={...},
              )
          response.raise_for_status()
          progress_bar()
      rich.print("[bold red]Gists have been deleted![/bold red]")
  \<close>
  \<open>delete_loop\<close> is the \<^verbatim>\<open>for\<close> loop; it carries the variable \<^verbatim>\<open>response\<close>, unbound
  (\<open>None\<close>) before the first call. \<^verbatim>\<open>response.raise_for_status()\<close> stands after the
  loop, at the indentation of the \<^verbatim>\<open>for\<close>.
\<close>

record args =
  token :: string
  force :: bool

type_synonym 'i delete_api = "'i list \<Rightarrow> 'i \<Rightarrow> py_error + nat"

fun delete_loop ::
  "'i delete_api \<Rightarrow> 'i list \<Rightarrow> nat option \<Rightarrow> 'i list \<Rightarrow>
   'i event list \<times> (py_error + nat option)" where
  "delete_loop requests_delete sent response [] = ([], Inr response)"
| "delete_loop requests_delete sent response (gist # gists) =
     (case requests_delete sent gist of
        Inl e \<Rightarrow> ([Sleep 1, Delete gist], Inl e)
      | Inr status \<Rightarrow>
          (case delete_loop requests_delete (sent @ [gist]) (Some status) gists of
             (trace, result) \<Rightarrow> (Sleep 1 # Delete gist # trace, result)))"

definition delete_gists ::
  "'i delete_api \<Rightarrow> string \<Rightarrow> args \<Rightarrow> 'i list \<Rightarrow> 'i event list \<times> (py_error + unit)" where
  "delete_gists requests_delete answer args gists =
     (if length gists = 0 then ([Print NoGistsEligible], Inr ())
      else
        (let asked =
           (if \<not> force args
            then [Print AreYouSure, Print (WillBeDeleted (length gists)), Input ''[Y/n] '']
            else [])
         in if \<not> force args \<and> answer \<notin> {''Yes'', ''Y'', ''y''} then (asked, Inr ())
            else
              (case delete_loop requests_delete [] None gists of
                 (trace, Inl e) \<Rightarrow> (asked @ trace, Inl e)
               | (trace, Inr None) \<Rightarrow> (asked @ trace, Inl (Lib UnboundLocalError))
               | (trace, Inr (Some status)) \<Rightarrow>
                   (case raise_for_status status of
                      Inl e \<Rightarrow> (asked @ trace, Inl e)
                    | Inr u \<Rightarrow> (asked @ trace @ [Print GistsDeleted], Inr ())))))"

section \<open>The fetch orchestrator\<close>

text \<open>
  The fetch is the loop of \<^verbatim>\<open>cli\<close>:
  \<^verbatim>\<open>
      gists = []
      for page in range(1, 31):
          response = requests.get(
              "https://api.github.com/gists",
              headers={...},
              params={"per_page": "100", "page": f"{page}"},
          )
          response.raise_for_status()
          page_gists = create_gists(response.json())
          gists.extend(page_gists)
          if len(page_gists) < 30:  # No gists on further pages.
              break
          sleep(1)  # To avoid secondary rate limits.
  \<close>
  The API client is a parameter: \<open>requests_get per_page page\<close> raises, or returns a
  response with its status code and its body as parsed JSON. \<open>fetch_loop\<close> is the
  loop over the pages left, \<open>fetch_gists\<close> runs it on \<^verbatim>\<open>range(1, 31)\<close>.
\<close>

record response =
  status_code :: nat
  body :: json

type_synonym get_api = "nat \<Rightarrow> nat \<Rightarrow> py_error + response"

fun fetch_loop ::
  "strptime \<Rightarrow> get_api \<Rightarrow> nat list \<Rightarrow> (json, json) Gist list \<Rightarrow>
   json event list \<times> (py_error + (json, json) Gist list)" where
  "fetch_loop strptime requests_get [] gists = ([], Inr gists)"
| "fetch_loop strptime requests_get (page # pages) gists =
     (case requests_get 100 page of
        Inl e \<Rightarrow> ([Get 100 page], Inl e)
      | Inr response \<Rightarrow>
     (case raise_for_status (status_code response) of
        Inl e \<Rightarrow> ([Get 100 page], Inl e)
      | Inr u \<Rightarrow>
     (case create_gists strptime (body response) of
        Inl e \<Rightarrow> ([Get 100 page], Inl e)
      | Inr page_gists \<Rightarrow>
          if length page_gists < 30 then ([Get 100 page], Inr (gists @ page_gists))
          else
            (case fetch_loop strptime requests_get pages (gists @ page_gists) of
               (trace, result) \<Rightarrow> (Get 100 page # Sleep 1 # trace, result)))))"

definition fetch_gists ::
  "strptime \<Rightarrow> get_api \<Rightarrow> json event list \<times> (py_error + (json, json) Gist list)" where
  "fetch_gists strptime requests_get = fetch_loop strptime requests_get [1..<31] []"

section \<open>The specification's reading of the filter criteria\<close>

text \<open>
  The specification's Filter Criteria are a triple: an optional visibility, an optional
  list of languages and an optional date range of one or two dates. \<open>criteria\<close> is
  the \<^verbatim>\<open>relevant_args\<close> list that \<^verbatim>\<open>cli\<close> builds for such a triple.
  \<open>in_date_range\<close> and \<open>satisfies\<close> follow the specification's words, not the
  code: one date means equality, two dates mean the inclusive interval, and a record
  satisfies the criteria when it satisfies every dimension that is present.
\<close>

definition criteria ::
  "string option \<Rightarrow> 'l list option \<Rightarrow> date list option \<Rightarrow> 'l argument option list" where
  "criteria v ls ds = [map_option Visibility v, map_option Languages ls, map_option Dates ds]"

definition in_date_range :: "date list \<Rightarrow> date \<Rightarrow> bool" where
  "in_date_range ds d =
     (case ds of
        [a] \<Rightarrow> d = a
      | [a, b] \<Rightarrow> date_le a d \<and> date_le d b
      | _ \<Rightarrow> False)"

definition satisfies ::
  "string option \<Rightarrow> 'l list option \<Rightarrow> date list option \<Rightarrow> ('i, 'l) Gist \<Rightarrow> bool" where
  "satisfies v ls ds gist \<longleftrightarrow>
     (case v of None \<Rightarrow> True | Some x \<Rightarrow> visibility gist = x) \<and>
     (case ls of None \<Rightarrow> True | Some xs \<Rightarrow> language gist \<in> set xs) \<and>
     (case ds of None \<Rightarrow> True | Some xs \<Rightarrow> in_date_range xs (created_date gist))"

section \<open>The specification's reading of a raw record\<close>

text \<open>
  These definitions follow the specification's words, not the code. A raw record is a
  mapping; \<open>first_file_label\<close> is the language label of the first entry of its
  per-file mapping (\<open>None\<close> where the record has no such entry or the entry carries
  no label; a label that is present may be null), \<open>public_flag\<close> is its boolean
  flag, \<open>created_on\<close> the calendar date of its timestamp. \<open>record_of\<close> is the
  Record the specification assigns to a raw record that has all three.
\<close>

definition raw_field :: "json \<Rightarrow> string \<Rightarrow> json option" where
  "raw_field raw k = (case raw of JObj kvs \<Rightarrow> map_of kvs k | _ \<Rightarrow> None)"

definition first_file :: "json \<Rightarrow> json option" where
  "first_file raw =
     (case raw_field raw ''files'' of
        Some (JObj (entry # rest)) \<Rightarrow> Some (snd entry)
      | _ \<Rightarrow> None)"

definition first_file_label :: "json \<Rightarrow> json option" where
  "first_file_label raw =
     (case first_file raw of Some file \<Rightarrow> raw_field file ''language'' | None \<Rightarrow> None)"

definition public_flag :: "json \<Rightarrow> bool option" where
  "public_flag raw = (case raw_field raw ''public'' of Some (JBool b) \<Rightarrow> Some b | _ \<Rightarrow> None)"

definition created_on :: "strptime \<Rightarrow> json \<Rightarrow> date option" where
  "created_on strptime raw =
     (case raw_field raw ''created_at'' of
        Some (JStr ts) \<Rightarrow>
          (case strptime ts ''%Y-%m-%dT%H:%M:%SZ'' of
             Inr dt \<Rightarrow> Some (date_of dt)
           | Inl e \<Rightarrow> None)
      | _ \<Rightarrow> None)"

definition record_of :: "strptime \<Rightarrow> json \<Rightarrow> (json, json) Gist option" where
  "record_of strptime raw =
     (case (first_file_label raw, public_flag raw, created_on strptime raw) of
        (Some label, Some b, Some d) \<Rightarrow>
          Some \<lparr>gist_id = (case raw_field raw ''id'' of Some i \<Rightarrow> i | None \<Rightarrow> JNull),
                visibility = (if b then ''public'' else ''secret''),
                language = (if label = JNull then JStr ''Unknown'' else label),
                created_date = d\<rparr>
      | _ \<Rightarrow> None)"


section \<open>The specification's reading of a fetch run\<close>

text \<open>
  These definitions name what the specification speaks of. \<open>fetch_page\<close> is the
  outcome of one page: the request, the status check and the normalizer, as the loop
  body performs them. A page is full when it yields 30 records or more;
  \<open>gists_of_page\<close> are the records of a page that yields some. \<open>is_get\<close> picks the
  page requests out of a run.
\<close>

definition fetch_page :: "strptime \<Rightarrow> get_api \<Rightarrow> nat \<Rightarrow> py_error + (json, json) Gist list" where
  "fetch_page strptime requests_get page =
     (case requests_get 100 page of
        Inl e \<Rightarrow> Inl e
      | Inr response \<Rightarrow>
          (case raise_for_status (status_code response) of
             Inl e \<Rightarrow> Inl e
           | Inr u \<Rightarrow> create_gists strptime (body response)))"

definition full_page :: "strptime \<Rightarrow> get_api \<Rightarrow> nat \<Rightarrow> bool" where
  "full_page strptime requests_get page =
     (case fetch_page strptime requests_get page of
        Inr page_gists \<Rightarrow> 30 \<le> length page_gists
      | Inl e \<Rightarrow> False)"

definition gists_of_page :: "strptime \<Rightarrow> get_api \<Rightarrow> nat \<Rightarrow> (json, json) Gist list" where
  "gists_of_page strptime requests_get page =
     (case fetch_page strptime requests_get page of Inr gists \<Rightarrow> gists | Inl e \<Rightarrow> [])"

fun is_get :: "'i event \<Rightarrow> bool" where
  "is_get (Get per_page page) = True"
| "is_get e = False"


section \<open>A reference parser for closed examples\<close>

text \<open>
  \<open>strptime_padded\<close> instantiates the \<open>strptime\<close> parameter in closed examples.
  It reads the two formats the program uses, in their zero-padded form only
  (\<^verbatim>\<open>2024-07-12\<close> and \<^verbatim>\<open>2024-07-12T08:30:00Z\<close>), and raises
  \<^verbatim>\<open>ValueError\<close> on everything else, as the library does on a string that does
  not match the format.
\<close>

definition digit_val :: "char \<Rightarrow> nat option" where
  "digit_val c =
     (let n = (of_char c :: nat)
      in if of_char CHR ''0'' \<le> n \<and> n \<le> of_char CHR ''9'' then Some (n - of_char CHR ''0'') else None)"

fun digits_val :: "string \<Rightarrow> nat \<Rightarrow> nat option" where
  "digits_val [] acc = Some acc"
| "digits_val (c # cs) acc =
     (case digit_val c of None \<Rightarrow> None | Some d \<Rightarrow> digits_val cs (10 * acc + d))"

definition days_in_month :: "nat \<Rightarrow> nat \<Rightarrow> nat" where
  "days_in_month y m =
     (if m = 2 then (if y mod 4 = 0 \<and> (y mod 100 \<noteq> 0 \<or> y mod 400 = 0) then 29 else 28)
      else if m = 4 \<or> m = 6 \<or> m = 9 \<or> m = 11 then 30 else 31)"

definition read_date :: "string \<Rightarrow> date option" where
  "read_date s =
     (if length s = 10 \<and> s ! 4 = CHR ''-'' \<and> s ! 7 = CHR ''-'' then
        (case (digits_val (take 4 s) 0, digits_val (take 2 (drop 5 s)) 0,
               digits_val (take 2 (drop 8 s)) 0) of
           (Some y, Some m, Some d) \<Rightarrow>
             if 1 \<le> y \<and> 1 \<le> m \<and> m \<le> 12 \<and> 1 \<le> d \<and> d \<le> days_in_month y m
             then Some (Date y m d) else None
         | _ \<Rightarrow> None)
      else None)"

definition read_time :: "string \<Rightarrow> (nat \<times> nat \<times> nat) option" where
  "read_time s =
     (if length s = 8 \<and> s ! 2 = CHR '':'' \<and> s ! 5 = CHR '':'' then
        (case (digits_val (take 2 s) 0, digits_val (take 2 (drop 3 s)) 0,
               digits_val (take 2 (drop 6 s)) 0) of
           (Some h, Some mi, Some se) \<Rightarrow>
             if h \<le> 23 \<and> mi \<le> 59 \<and> se \<le> 61 then Some (h, mi, se) else None
         | _ \<Rightarrow> None)
      else None)"

definition strptime_padded :: strptime where
  "strptime_padded s format =
     (if format = ''%Y-%m-%d'' then
        (case read_date s of
           Some d \<Rightarrow> Inr (Datetime d 0 0 0)
         | None \<Rightarrow> Inl (Lib ValueError))
      else if format = ''%Y-%m-%dT%H:%M:%SZ'' then
        (if length s = 20 \<and> s ! 10 = CHR ''T'' \<and> s ! 19 = CHR ''Z'' then
           (case (read_date (take 10 s), read_time (take 8 (drop 11 s))) of
              (Some d, Some (h, mi, se)) \<Rightarrow> Inr (Datetime d h mi se)
            | _ \<Rightarrow> Inl (Lib ValueError))
         else Inl (Lib ValueError))
      else Inl (Lib ValueError))"

section \<open>Example inputs\<close>

text \<open>The three records of the specification's filter scenarios.\<close>

definition gist_A :: "(string, string) Gist" where
  "gist_A = \<lparr>gist_id = ''A'', visibility = ''secret'', language = ''Clojure'',
             created_date = Date 2024 7 12\<rparr>"

definition gist_B :: "(string, string) Gist" where
  "gist_B = \<lparr>gist_id = ''B'', visibility = ''public'', language = ''Python'',
             created_date = Date 2024 7 10\<rparr>"

definition gist_C :: "(string, string) Gist" where
  "gist_C = \<lparr>gist_id = ''C'', visibility = ''public'', language = ''Unknown'',
             created_date = Date 2024 7 10\<rparr>"

definition example_gists :: "(string, string) Gist list" where
  "example_gists = [gist_A, gist_B, gist_C]"


text \<open>Raw records as the API sends them, and variants of the first in its flag.\<close>

definition raw_python :: json where
  "raw_python = JObj
     [(''id'', JStr ''68ae''), (''public'', JBool True),
      (''files'', JObj [(''a.py'', JObj [(''language'', JStr ''Python'')]),
                        (''b.rb'', JObj [(''language'', JStr ''Ruby'')])]),
      (''created_at'', JStr ''2024-06-16T08:30:00Z'')]"

definition raw_unknown :: json where
  "raw_unknown = JObj
     [(''id'', JStr ''3a9f''), (''public'', JBool False),
      (''files'', JObj [(''notes'', JObj [(''language'', JNull)])]),
      (''created_at'', JStr ''2024-07-10T23:59:59Z'')]"

definition raw_with_flag :: "json option \<Rightarrow> json" where
  "raw_with_flag flag = JObj
     ((case flag of None \<Rightarrow> [] | Some v \<Rightarrow> [(''public'', v)]) @
      [(''id'', JStr ''7fea''),
       (''files'', JObj [(''core.clj'', JObj [(''language'', JStr ''Clojure'')])]),
       (''created_at'', JStr ''2024-07-12T10:00:00Z'')])"


text \<open>
  Arguments with and without \<^verbatim>\<open>--force\<close>, and two API clients for the deletion:
  \<open>delete_fails_first\<close> answers the first delete call with status 500 and every
  later one with 204; \<open>delete_succeeds\<close> answers every call with 204.
\<close>

definition args_force :: args where
  "args_force = \<lparr>token = ''ghp_example'', force = True\<rparr>"

definition args_ask :: args where
  "args_ask = \<lparr>token = ''ghp_example'', force = False\<rparr>"

definition delete_fails_first :: "string delete_api" where
  "delete_fails_first sent gist = Inr (if sent = [] then 500 else 204)"

definition delete_succeeds :: "string delete_api" where
  "delete_succeeds sent gist = Inr 204"


text \<open>
  Two API clients for the fetch: \<open>get_full_pages\<close> answers every page with 30
  records; \<open>get_two_pages\<close> answers page 1 with 30 records, page 2 with one record
  and any other page with status 404.
\<close>

definition get_full_pages :: get_api where
  "get_full_pages per_page page = Inr \<lparr>status_code = 200, body = JArr (replicate 30 raw_python)\<rparr>"

definition get_two_pages :: get_api where
  "get_two_pages per_page page =
     (if page = 1 then Inr \<lparr>status_code = 200, body = JArr (replicate 30 raw_python)\<rparr>
      else if page = 2 then Inr \<lparr>status_code = 200, body = JArr [raw_unknown]\<rparr>
      else Inr \<lparr>status_code = 404, body = JNull\<rparr>)"


section \<open>Properties of the date-range parser\<close>

lemma parse_dates_loop_all_parse:
  "\<forall>s\<in>set xs. strptime s ''%Y-%m-%d'' = Inr (dt s) \<Longrightarrow>
   parse_dates_loop strptime xs acc = Inr (acc @ map (\<lambda>s. date_of (dt s)) xs)"
  by (induction xs arbitrary: acc) auto

lemma parse_date_arguments_three:
  "length xs = 3 \<Longrightarrow>
   parse_date_arguments strptime xs =
     Inl (Raised TypeError ''Too many arguments passed to the -dr flag. Only pass max 2 dates.'')"
  by (simp add: parse_date_arguments_def)

lemma parse_date_arguments_well_formed:
  "length xs \<noteq> 3 \<Longrightarrow> \<forall>s\<in>set xs. strptime s ''%Y-%m-%d'' = Inr (dt s) \<Longrightarrow>
   parse_date_arguments strptime xs = Inr (map (\<lambda>s. date_of (dt s)) xs)"
  using parse_dates_loop_all_parse [of xs strptime dt "[]"]
  by (simp add: parse_date_arguments_def)

lemma strptime_padded_examples:
  "strptime_padded ''2024-01-01'' ''%Y-%m-%d'' = Inr (Datetime (Date 2024 1 1) 0 0 0)"
  "strptime_padded ''2024-02-01'' ''%Y-%m-%d'' = Inr (Datetime (Date 2024 2 1) 0 0 0)"
  "strptime_padded ''2024-03-01'' ''%Y-%m-%d'' = Inr (Datetime (Date 2024 3 1) 0 0 0)"
  "strptime_padded ''2024-04-01'' ''%Y-%m-%d'' = Inr (Datetime (Date 2024 4 1) 0 0 0)"
  by (simp_all add: strptime_padded_def read_date_def digit_val_def days_in_month_def)

text \<open>
  C3. The claim: three or more date strings always fail with the too-many-arguments
  error, and one or two well-formed strings give their dates in input order. The
  length test is \<^verbatim>\<open>len(date_arguments) == 3\<close>, so only a sequence of exactly three
  strings is refused (\<open>parse_date_arguments_three\<close>); the part on one or two strings
  holds (\<open>parse_date_arguments_well_formed\<close>). At four well-formed strings the
  parser returns four dates instead of failing, although its own message says
  ``Only pass max 2 dates''.
\<close>

theorem parse_date_arguments_four_dates:
  "parse_date_arguments strptime_padded
     [''2024-01-01'', ''2024-02-01'', ''2024-03-01'', ''2024-04-01''] =
   Inr [Date 2024 1 1, Date 2024 2 1, Date 2024 3 1, Date 2024 4 1]"
  by (simp add: parse_date_arguments_def strptime_padded_examples)

section \<open>Properties of the filter engine\<close>

lemma date_le_refl: "date_le d d"
  by (simp add: date_le_def)

lemma match_loop_None:
  "match_loop index None gists acc = Inr (acc @ map gist_id gists)"
  by (induction gists arbitrary: acc) simp_all

lemma match_loop_Some:
  "\<forall>g\<in>set gists. gist_matches index a g = Inr (P g) \<Longrightarrow>
   match_loop index (Some a) gists acc = Inr (acc @ map gist_id (filter P gists))"
  by (induction gists arbitrary: acc) simp_all

lemma filter_gists_three:
  assumes "match_loop 0 a0 gists [] = Inr m0"
    and "match_loop 1 a1 gists [] = Inr m1"
    and "match_loop 2 a2 gists [] = Inr m2"
  shows "filter_gists [a0, a1, a2] gists = Inr (set m0 \<inter> set m1 \<inter> set m2)"
  using assms by (simp add: filter_gists_def numeral_2_eq_2)

lemma match_visibility:
  "match_loop 0 (map_option Visibility v) gists [] =
     Inr (map gist_id (filter (\<lambda>g. case v of None \<Rightarrow> True | Some x \<Rightarrow> visibility g = x) gists))"
proof (cases v)
  case None
  then show ?thesis by (simp add: match_loop_None)
next
  case (Some x)
  have "match_loop 0 (Some (Visibility x)) gists [] =
          Inr ([] @ map gist_id (filter (\<lambda>g. x = visibility g) gists))"
    by (rule match_loop_Some) simp
  then show ?thesis using Some by (simp add: eq_commute)
qed

lemma match_languages:
  "match_loop 1 (map_option Languages ls) gists [] =
     Inr (map gist_id (filter (\<lambda>g. case ls of None \<Rightarrow> True | Some xs \<Rightarrow> language g \<in> set xs) gists))"
proof (cases ls)
  case None
  then show ?thesis by (simp add: match_loop_None)
next
  case (Some xs)
  have "match_loop 1 (Some (Languages xs)) gists [] =
          Inr ([] @ map gist_id (filter (\<lambda>g. language g \<in> set xs) gists))"
    by (rule match_loop_Some) simp
  then show ?thesis using Some by simp
qed

lemma gist_matches_dates:
  "gist_matches 2 (Dates xs) g = Inr (in_date_range xs (created_date g))"
  if "length xs = 1 \<or> length xs = 2"
proof (cases xs)
  case Nil
  with that show ?thesis by simp
next
  case (Cons a ys)
  with that show ?thesis
    by (cases ys) (auto simp: in_date_range_def)
qed

lemma match_dates:
  assumes "case ds of None \<Rightarrow> True | Some xs \<Rightarrow> length xs = 1 \<or> length xs = 2"
  shows "match_loop 2 (map_option Dates ds) gists [] =
     Inr (map gist_id
            (filter (\<lambda>g. case ds of None \<Rightarrow> True | Some xs \<Rightarrow> in_date_range xs (created_date g))
               gists))"
proof (cases ds)
  case None
  then show ?thesis by (simp add: match_loop_None)
next
  case (Some xs)
  with assms have len: "length xs = 1 \<or> length xs = 2" by simp
  have "match_loop 2 (Some (Dates xs)) gists [] =
          Inr ([] @ map gist_id (filter (\<lambda>g. in_date_range xs (created_date g)) gists))"
    by (rule match_loop_Some) (simp add: gist_matches_dates [OF len] del: gist_matches.simps)
  then show ?thesis using Some by simp
qed

text \<open>
  The result for a criteria triple, with no assumption on the ids: the intersection
  of the three sets of matching ids.
\<close>

lemma filter_gists_criteria:
  assumes "case ds of None \<Rightarrow> True | Some xs \<Rightarrow> length xs = 1 \<or> length xs = 2"
  shows "filter_gists (criteria v ls ds) gists =
    Inr (gist_id ` {g \<in> set gists. case v of None \<Rightarrow> True | Some x \<Rightarrow> visibility g = x} \<inter>
         gist_id ` {g \<in> set gists. case ls of None \<Rightarrow> True | Some xs \<Rightarrow> language g \<in> set xs} \<inter>
         gist_id `
           {g \<in> set gists. case ds of None \<Rightarrow> True | Some xs \<Rightarrow> in_date_range xs (created_date g)})"
  unfolding criteria_def
  by (simp only: filter_gists_three [OF match_visibility match_languages match_dates [OF assms]]
        set_map set_filter)

lemma distinct_id_mem:
  assumes "distinct (map gist_id gists)" and "g \<in> set gists"
  shows "gist_id g \<in> gist_id ` {h \<in> set gists. P h} \<longleftrightarrow> P g"
proof -
  from assms(1) have "inj_on gist_id (set gists)" by (simp add: distinct_map)
  with assms(2) show ?thesis by (auto dest: inj_onD)
qed

text \<open>
  C1. For records with unique ids (the specification's data model relies on the
  API for that) and a criteria triple whose date range, when present, holds one or
  two dates, the filter returns a set \<open>S\<close> of ids of the given records such that
  the id of a record is in \<open>S\<close> exactly when the record satisfies every present
  dimension; with no dimension present \<open>S\<close> is the set of all ids.
\<close>

theorem filter_gists_satisfies:
  assumes ids: "distinct (map gist_id gists)"
    and dates: "case ds of None \<Rightarrow> True | Some xs \<Rightarrow> length xs = 1 \<or> length xs = 2"
  shows "\<exists>S. filter_gists (criteria v ls ds) gists = Inr S \<and>
             S \<subseteq> gist_id ` set gists \<and>
             (\<forall>g\<in>set gists. gist_id g \<in> S \<longleftrightarrow> satisfies v ls ds g) \<and>
             (v = None \<and> ls = None \<and> ds = None \<longrightarrow> S = gist_id ` set gists)"
proof -
  let ?V = "\<lambda>g::('a, 'b) Gist. case v of None \<Rightarrow> True | Some x \<Rightarrow> visibility g = x"
  let ?L = "\<lambda>g::('a, 'b) Gist. case ls of None \<Rightarrow> True | Some xs \<Rightarrow> language g \<in> set xs"
  let ?D = "\<lambda>g::('a, 'b) Gist.
              case ds of None \<Rightarrow> True | Some xs \<Rightarrow> in_date_range xs (created_date g)"
  let ?S = "gist_id ` {g \<in> set gists. ?V g} \<inter> gist_id ` {g \<in> set gists. ?L g} \<inter>
            gist_id ` {g \<in> set gists. ?D g}"
  have res: "filter_gists (criteria v ls ds) gists = Inr ?S"
    by (rule filter_gists_criteria [OF dates])
  have sub: "?S \<subseteq> gist_id ` set gists" by auto
  have mem: "gist_id g \<in> ?S \<longleftrightarrow> satisfies v ls ds g" if "g \<in> set gists" for g
    by (simp only: Int_iff distinct_id_mem [OF ids that] satisfies_def conj_assoc)
  have full: "v = None \<and> ls = None \<and> ds = None \<longrightarrow> ?S = gist_id ` set gists"
    by simp
  show ?thesis
  proof (intro exI conjI)
    show "filter_gists (criteria v ls ds) gists = Inr ?S" by (rule res)
    show "?S \<subseteq> gist_id ` set gists" by (rule sub)
    show "\<forall>g\<in>set gists. gist_id g \<in> ?S \<longleftrightarrow> satisfies v ls ds g"
      using mem by (rule ballI)
    show "v = None \<and> ls = None \<and> ds = None \<longrightarrow> ?S = gist_id ` set gists" by (rule full)
  qed
qed


theorem filter_gists_satisfies_witness:
  "distinct (map gist_id example_gists) \<and>
   filter_gists (criteria (Some ''public'') (Some [''Python'', ''SQL'']) (Some [Date 2024 7 10]))
     example_gists = Inr {''B''} \<and>
   satisfies (Some ''public'') (Some [''Python'', ''SQL'']) (Some [Date 2024 7 10]) gist_B \<and>
   \<not> satisfies (Some ''public'') (Some [''Python'', ''SQL'']) (Some [Date 2024 7 10]) gist_C \<and>
   filter_gists (criteria None None None) example_gists = Inr {''A'', ''B'', ''C''}"
proof -
  let ?v = "Some ''public''" and ?ls = "Some [''Python'', ''SQL'']"
    and ?ds = "Some [Date 2024 7 10]"
  have ids: "distinct (map gist_id example_gists)"
    by (simp add: example_gists_def gist_A_def gist_B_def gist_C_def)
  have sat: "\<not> satisfies ?v ?ls ?ds gist_A" "satisfies ?v ?ls ?ds gist_B"
    "\<not> satisfies ?v ?ls ?ds gist_C"
    by (simp_all add: satisfies_def in_date_range_def gist_A_def gist_B_def gist_C_def)
  obtain S where S: "filter_gists (criteria ?v ?ls ?ds) example_gists = Inr S"
    "S \<subseteq> gist_id ` set example_gists"
    "\<forall>g\<in>set example_gists. gist_id g \<in> S \<longleftrightarrow> satisfies ?v ?ls ?ds g"
    using filter_gists_satisfies [OF ids, of ?ds ?v ?ls] by auto
  from S(2,3) sat have "S = {''B''}"
    by (auto simp: example_gists_def gist_A_def gist_B_def gist_C_def)
  moreover
  obtain T where T: "filter_gists (criteria None None None) example_gists = Inr T"
    "T = gist_id ` set example_gists"
    using filter_gists_satisfies [OF ids, of None None None] by auto
  from T(2) have "T = {''A'', ''B'', ''C''}"
    by (simp add: example_gists_def gist_A_def gist_B_def gist_C_def)
  ultimately show ?thesis using ids S(1) T(1) sat by simp
qed

lemma date_le_trans: "date_le a b \<Longrightarrow> date_le b c \<Longrightarrow> date_le a c"
  by (auto simp: date_le_def)

text \<open>
  C7. The date-range test on a record: with one date the record matches exactly when
  its date equals it, with two dates exactly when its date lies in the inclusive
  interval from the first to the second. So with only the date range present the
  filter returns the ids of exactly these records; for an ascending pair the records
  dated on either boundary are among them; a descending pair is not reordered and
  selects nothing.
\<close>

theorem date_range_matching:
  "gist_matches 2 (Dates [d]) gist = Inr (created_date gist = d) \<and>
   gist_matches 2 (Dates [d1, d2]) gist =
     Inr (date_le d1 (created_date gist) \<and> date_le (created_date gist) d2) \<and>
   filter_gists (criteria None None (Some [d])) gists =
     Inr (gist_id ` {g \<in> set gists. created_date g = d}) \<and>
   filter_gists (criteria None None (Some [d1, d2])) gists =
     Inr (gist_id ` {g \<in> set gists. date_le d1 (created_date g) \<and> date_le (created_date g) d2}) \<and>
   (date_le d1 d2 \<longrightarrow>
      gist_id ` {g \<in> set gists. created_date g = d1 \<or> created_date g = d2} \<subseteq>
      gist_id ` {g \<in> set gists. date_le d1 (created_date g) \<and> date_le (created_date g) d2}) \<and>
   (\<not> date_le d1 d2 \<longrightarrow> filter_gists (criteria None None (Some [d1, d2])) gists = Inr {})"
proof (intro conjI impI)
  show "gist_matches 2 (Dates [d]) gist = Inr (created_date gist = d)"
    by simp
  show "gist_matches 2 (Dates [d1, d2]) gist =
     Inr (date_le d1 (created_date gist) \<and> date_le (created_date gist) d2)"
    by simp
  show one: "filter_gists (criteria None None (Some [d])) gists =
     Inr (gist_id ` {g \<in> set gists. created_date g = d})"
    using filter_gists_criteria [of "Some [d]" None None gists]
    by (auto simp: in_date_range_def)
  show two: "filter_gists (criteria None None (Some [d1, d2])) gists =
     Inr (gist_id ` {g \<in> set gists. date_le d1 (created_date g) \<and> date_le (created_date g) d2})"
    using filter_gists_criteria [of "Some [d1, d2]" None None gists]
    by (auto simp: in_date_range_def)
  show "gist_id ` {g \<in> set gists. created_date g = d1 \<or> created_date g = d2} \<subseteq>
      gist_id ` {g \<in> set gists. date_le d1 (created_date g) \<and> date_le (created_date g) d2}"
    if "date_le d1 d2"
    using that by (auto simp: date_le_refl)
  show "filter_gists (criteria None None (Some [d1, d2])) gists = Inr {}" if "\<not> date_le d1 d2"
  proof -
    have "\<not> (date_le d1 c \<and> date_le c d2)" for c
      using that date_le_trans by blast
    then show ?thesis by (simp add: two)
  qed
qed

theorem date_range_matching_witness:
  "filter_gists (criteria None None (Some [Date 2024 7 10])) example_gists = Inr {''B'', ''C''} \<and>
   date_le (Date 2024 7 10) (Date 2024 7 12) \<and>
   filter_gists (criteria None None (Some [Date 2024 7 10, Date 2024 7 12])) example_gists =
     Inr {''A'', ''B'', ''C''} \<and>
   \<not> date_le (Date 2024 7 12) (Date 2024 7 10) \<and>
   filter_gists (criteria None None (Some [Date 2024 7 12, Date 2024 7 10])) example_gists = Inr {}"
proof -
  have asc: "date_le (Date 2024 7 10) (Date 2024 7 12)"
    and desc: "\<not> date_le (Date 2024 7 12) (Date 2024 7 10)"
    by (simp_all add: date_le_def)
  note up = date_range_matching
    [of "Date 2024 7 10" gist_A "Date 2024 7 10" "Date 2024 7 12" example_gists,
      THEN conjunct2, THEN conjunct2]
  note down = date_range_matching
    [of "Date 2024 7 10" gist_A "Date 2024 7 12" "Date 2024 7 10" example_gists,
      THEN conjunct2, THEN conjunct2]
  have conv: "gist_id ` {g \<in> set xs. P g} = set (map gist_id (filter P xs))"
    for P and xs :: "(string, string) Gist list"
    by auto
  have one: "gist_id ` {g \<in> set example_gists. created_date g = Date 2024 7 10} = {''B'', ''C''}"
    unfolding conv by (simp add: example_gists_def gist_A_def gist_B_def gist_C_def)
  have two: "gist_id ` {g \<in> set example_gists. date_le (Date 2024 7 10) (created_date g) \<and>
      date_le (created_date g) (Date 2024 7 12)} = {''A'', ''B'', ''C''}"
    unfolding conv by (simp add: example_gists_def gist_A_def gist_B_def gist_C_def date_le_def)
  have r1: "filter_gists (criteria None None (Some [Date 2024 7 10])) example_gists =
      Inr {''B'', ''C''}"
    using up [THEN conjunct1] by (simp only: one)
  have r2: "filter_gists (criteria None None (Some [Date 2024 7 10, Date 2024 7 12]))
      example_gists = Inr {''A'', ''B'', ''C''}"
    using up [THEN conjunct2, THEN conjunct1] by (simp only: two)
  have r3: "filter_gists (criteria None None (Some [Date 2024 7 12, Date 2024 7 10]))
      example_gists = Inr {}"
    using down [THEN conjunct2, THEN conjunct2, THEN conjunct2] desc by (rule mp)
  from r1 asc r2 desc r3 show ?thesis by (intro conjI)
qed


section \<open>Properties of the record normalizer\<close>

text \<open>
  The loop body on a raw record that has a first file with a label and a timestamp
  that parses: whatever the flag is, the record is built and no exception is raised.
\<close>

lemma create_gist_fields:
  assumes "first_file_label raw = Some label" and "created_on strptime raw = Some d"
  shows "create_gist strptime raw =
     Inr \<lparr>gist_id = (case raw_field raw ''id'' of Some i \<Rightarrow> i | None \<Rightarrow> JNull),
          visibility =
            (if truthy (case raw_field raw ''public'' of Some v \<Rightarrow> v | None \<Rightarrow> JNull)
             then ''public'' else ''secret''),
          language = (if label = JNull then JStr ''Unknown'' else label),
          created_date = d\<rparr>"
proof -
  from assms(1) obtain kvs where raw: "raw = JObj kvs"
    by (cases raw) (simp_all add: first_file_label_def first_file_def raw_field_def)
  from assms(1) obtain entry rest where files: "map_of kvs ''files'' = Some (JObj (entry # rest))"
    by (auto simp: raw first_file_label_def first_file_def raw_field_def
          split: option.splits json.splits list.splits)
  from assms(1) files obtain fkvs where fobj: "snd entry = JObj fkvs"
    and lab: "map_of fkvs ''language'' = Some label"
    by (cases "snd entry") (simp_all add: raw first_file_label_def first_file_def raw_field_def)
  from assms(2) obtain ts dt where ts: "map_of kvs ''created_at'' = Some (JStr ts)"
    and dt: "strptime ts ''%Y-%m-%dT%H:%M:%SZ'' = Inr dt" and d: "d = date_of dt"
    by (auto simp: raw created_on_def raw_field_def split: option.splits json.splits sum.splits)
  show ?thesis
    by (simp add: create_gist_def raw files fobj lab ts dt d py_next_iter_def raw_field_def
          split: option.splits)
qed

lemma create_gist_record:
  assumes "record_of strptime raw = Some gist"
  shows "create_gist strptime raw = Inr gist"
proof -
  from assms obtain label b d where label: "first_file_label raw = Some label"
    and b: "public_flag raw = Some b" and d: "created_on strptime raw = Some d"
    by (auto simp: record_of_def split: option.splits)
  from b have flag: "raw_field raw ''public'' = Some (JBool b)"
    by (auto simp: public_flag_def split: option.splits json.splits)
  from assms show ?thesis
    by (simp add: create_gist_fields [OF label d] record_of_def label b d flag)
qed

lemma create_gists_loop_records:
  assumes "\<forall>raw\<in>set raws. record_of strptime raw \<noteq> None"
  shows "create_gists_loop strptime raws acc =
           Inr (acc @ map (\<lambda>raw. the (record_of strptime raw)) raws)"
  using assms
proof (induction raws arbitrary: acc)
  case Nil
  then show ?case by simp
next
  case (Cons raw raws)
  then obtain gist where gist: "record_of strptime raw = Some gist" by auto
  with Cons show ?case by (simp add: create_gist_record [OF gist])
qed

text \<open>
  C5. For raw records that each have a first file entry with a language label
  (possibly null), a boolean flag and a timestamp that parses, the normalizer returns
  one Record per input in input order: the \<open>i\<close>-th Record is the specification's
  Record of the \<open>i\<close>-th input (language: the first file's label, or ``Unknown'' for
  null; visibility: ``public'' for true and ``secret'' for false; date: the date
  of the timestamp).
\<close>

theorem create_gists_records:
  assumes "\<forall>raw\<in>set raws. record_of strptime raw \<noteq> None"
  shows "\<exists>gists. create_gists strptime (JArr raws) = Inr gists \<and>
           length gists = length raws \<and>
           (\<forall>i<length raws. record_of strptime (raws ! i) = Some (gists ! i))"
proof (intro exI conjI allI impI)
  let ?gists = "map (\<lambda>raw. the (record_of strptime raw)) raws"
  show "create_gists strptime (JArr raws) = Inr ?gists"
    using create_gists_loop_records [OF assms, of "[]"] by (simp add: create_gists_def)
  show "length ?gists = length raws" by simp
  show "record_of strptime (raws ! i) = Some (?gists ! i)" if "i < length raws" for i
  proof -
    from that have "raws ! i \<in> set raws" by simp
    with assms have "record_of strptime (raws ! i) \<noteq> None" by blast
    with that show ?thesis by auto
  qed
qed

lemma strptime_padded_timestamps:
  "strptime_padded ''2024-06-16T08:30:00Z'' ''%Y-%m-%dT%H:%M:%SZ'' =
     Inr (Datetime (Date 2024 6 16) 8 30 0)"
  "strptime_padded ''2024-07-10T23:59:59Z'' ''%Y-%m-%dT%H:%M:%SZ'' =
     Inr (Datetime (Date 2024 7 10) 23 59 59)"
  "strptime_padded ''2024-07-12T10:00:00Z'' ''%Y-%m-%dT%H:%M:%SZ'' =
     Inr (Datetime (Date 2024 7 12) 10 0 0)"
  by (simp_all add: strptime_padded_def read_date_def read_time_def digit_val_def
        days_in_month_def)

lemma record_of_examples:
  "record_of strptime_padded raw_python =
     Some \<lparr>gist_id = JStr ''68ae'', visibility = ''public'', language = JStr ''Python'',
           created_date = Date 2024 6 16\<rparr>"
  "record_of strptime_padded raw_unknown =
     Some \<lparr>gist_id = JStr ''3a9f'', visibility = ''secret'', language = JStr ''Unknown'',
           created_date = Date 2024 7 10\<rparr>"
  by (simp_all add: record_of_def first_file_label_def first_file_def raw_field_def
        public_flag_def created_on_def raw_python_def raw_unknown_def
        strptime_padded_timestamps)

theorem create_gists_records_witness:
  "record_of strptime_padded raw_python \<noteq> None \<and>
   record_of strptime_padded raw_unknown \<noteq> None \<and>
   create_gists strptime_padded (JArr [raw_python, raw_unknown]) =
     Inr [\<lparr>gist_id = JStr ''68ae'', visibility = ''public'', language = JStr ''Python'',
            created_date = Date 2024 6 16\<rparr>,
          \<lparr>gist_id = JStr ''3a9f'', visibility = ''secret'', language = JStr ''Unknown'',
            created_date = Date 2024 7 10\<rparr>]"
proof -
  have wf: "\<forall>raw\<in>set [raw_python, raw_unknown]. record_of strptime_padded raw \<noteq> None"
    by (simp add: record_of_examples)
  from create_gists_records [OF wf] obtain gists
    where run: "create_gists strptime_padded (JArr [raw_python, raw_unknown]) = Inr gists"
      and len: "length gists = 2"
      and nth: "\<forall>i<2. record_of strptime_padded ([raw_python, raw_unknown] ! i) = Some (gists ! i)"
    by auto
  from nth have "record_of strptime_padded raw_python = Some (gists ! 0)"
    and "record_of strptime_padded raw_unknown = Some (gists ! 1)"
    by (auto dest: spec [of _ 0] spec [of _ 1])
  then have "gists ! 0 = the (record_of strptime_padded raw_python)"
    and "gists ! 1 = the (record_of strptime_padded raw_unknown)"
    by simp_all
  with len have "gists = [the (record_of strptime_padded raw_python),
      the (record_of strptime_padded raw_unknown)]"
    by (cases gists; cases "tl gists") auto
  with run show ?thesis by (simp add: record_of_examples)
qed

text \<open>
  C10. The flag is tested for truthiness, not for being a boolean. For a raw record
  that is well-formed apart from its flag (a first file with a label, a timestamp that
  parses), the normalizer raises nothing and the visibility is ``secret'' when the
  \<^verbatim>\<open>public\<close> field is missing or falsy (null, 0, the empty string, ...) and
  ``public'' when it is truthy, boolean or not.
\<close>

theorem create_gists_visibility_truthiness:
  assumes "first_file_label raw \<noteq> None" and "created_on strptime raw \<noteq> None"
  shows "\<exists>gist. create_gist strptime raw = Inr gist \<and>
           create_gists strptime (JArr [raw]) = Inr [gist] \<and>
           visibility gist =
             (case raw_field raw ''public'' of
                None \<Rightarrow> ''secret''
              | Some v \<Rightarrow> if truthy v then ''public'' else ''secret'')"
proof -
  from assms obtain label d where label: "first_file_label raw = Some label"
    and d: "created_on strptime raw = Some d"
    by auto
  show ?thesis
    by (simp add: create_gist_fields [OF label d] create_gists_def split: option.splits)
qed

lemma raw_with_flag_fields:
  "first_file_label (raw_with_flag flag) = Some (JStr ''Clojure'')"
  "created_on strptime_padded (raw_with_flag flag) = Some (Date 2024 7 12)"
  "raw_field (raw_with_flag flag) ''public'' = flag"
  "raw_field (raw_with_flag flag) ''id'' = Some (JStr ''7fea'')"
  by (simp_all add: raw_with_flag_def first_file_label_def first_file_def raw_field_def
        created_on_def strptime_padded_timestamps split: option.splits)

theorem create_gists_visibility_truthiness_witness:
  "first_file_label (raw_with_flag None) \<noteq> None \<and>
   created_on strptime_padded (raw_with_flag None) \<noteq> None \<and>
   map_sum (\<lambda>e. e) (map visibility)
     (create_gists strptime_padded (JArr [raw_with_flag None])) = Inr [''secret''] \<and>
   map_sum (\<lambda>e. e) (map visibility)
     (create_gists strptime_padded (JArr [raw_with_flag (Some JNull)])) = Inr [''secret''] \<and>
   map_sum (\<lambda>e. e) (map visibility)
     (create_gists strptime_padded (JArr [raw_with_flag (Some (JInt 0))])) = Inr [''secret''] \<and>
   map_sum (\<lambda>e. e) (map visibility)
     (create_gists strptime_padded (JArr [raw_with_flag (Some (JStr []))])) = Inr [''secret''] \<and>
   map_sum (\<lambda>e. e) (map visibility)
     (create_gists strptime_padded (JArr [raw_with_flag (Some (JInt 1))])) = Inr [''public''] \<and>
   map_sum (\<lambda>e. e) (map visibility)
     (create_gists strptime_padded (JArr [raw_with_flag (Some (JStr ''yes''))])) = Inr [''public'']"
proof -
  have vis: "map_sum (\<lambda>e. e) (map visibility)
       (create_gists strptime_padded (JArr [raw_with_flag flag])) =
     Inr [case flag of None \<Rightarrow> ''secret'' | Some v \<Rightarrow> if truthy v then ''public'' else ''secret'']"
    for flag
    using create_gists_visibility_truthiness [of "raw_with_flag flag" strptime_padded]
    by (auto simp: raw_with_flag_fields)
  show ?thesis by (simp add: vis raw_with_flag_fields)
qed


section \<open>Properties of the deletion orchestrator\<close>

text \<open>
  While the client returns responses, the loop issues one wait and one delete call per
  id, whatever the status codes are.
\<close>

lemma delete_loop_all_calls:
  assumes "\<forall>sent gist. requests_delete sent gist = Inr (status sent gist)"
  shows "fst (delete_loop requests_delete sent response gists) =
           concat (map (\<lambda>gist. [Sleep 1, Delete gist]) gists)"
  using assms
  by (induction gists arbitrary: sent response) (simp_all add: case_prod_unfold)

text \<open>
  C2. The claim: a failed delete call aborts the run with a fatal error and no delete
  call is issued after it. In the code \<^verbatim>\<open>response.raise_for_status()\<close> stands after
  the \<^verbatim>\<open>for\<close> loop, so only the last response is checked: with \<^verbatim>\<open>--force\<close>, two
  ids and a client whose first response is a 500, the run still issues the second
  delete call and ends without error, reporting that the gists have been deleted.
\<close>

theorem delete_gists_failed_call_ignored:
  "delete_fails_first [] ''a'' = Inr 500 \<and>
   raise_for_status 500 = Inl (Lib HTTPError) \<and>
   delete_gists delete_fails_first [] args_force [''a'', ''b''] =
     ([Sleep 1, Delete ''a'', Sleep 1, Delete ''b'', Print GistsDeleted], Inr ())"
  by (simp add: delete_gists_def delete_fails_first_def raise_for_status_def args_force_def)

lemma delete_loop_first_call:
  "Delete gist \<in> set (fst (delete_loop requests_delete sent response (gist # gists)))"
  by (simp split: sum.splits prod.splits)

lemma delete_gists_declined:
  assumes "gists \<noteq> []" and "\<not> force args" and "answer \<notin> {''Yes'', ''Y'', ''y''}"
  shows "delete_gists requests_delete answer args gists =
           ([Print AreYouSure, Print (WillBeDeleted (length gists)), Input ''[Y/n] ''], Inr ())"
  using assms by (simp add: delete_gists_def)

lemma delete_gists_proceeds:
  assumes "gists \<noteq> []" and "force args \<or> answer \<in> {''Yes'', ''Y'', ''y''}"
  shows "\<exists>before after. fst (delete_gists requests_delete answer args gists) =
           before @ fst (delete_loop requests_delete [] None gists) @ after"
proof -
  obtain trace result where loop: "delete_loop requests_delete [] None gists = (trace, result)"
    by (cases "delete_loop requests_delete [] None gists")
  let ?asked = "if \<not> force args
      then [Print AreYouSure, Print (WillBeDeleted (length gists)), Input ''[Y/n] ''] else []"
  have "fst (delete_gists requests_delete answer args gists) = ?asked @ trace @ [] \<or>
        fst (delete_gists requests_delete answer args gists) = ?asked @ trace @ [Print GistsDeleted]"
    using assms
    by (auto simp: delete_gists_def loop Let_def split: sum.splits option.splits)
  with loop show ?thesis by (metis fst_conv)
qed

text \<open>
  C8. For a non-empty id collection without \<^verbatim>\<open>--force\<close>, a delete call is issued
  exactly when the answer is ``Yes'', ``Y'' or ``y''; on any other answer, the
  empty one included, the run ends after the prompt with no delete call, no wait and
  no error.
\<close>

theorem delete_gists_confirmation:
  assumes "gists \<noteq> []" and "\<not> force args"
  shows "((\<exists>i. Delete i \<in> set (fst (delete_gists requests_delete answer args gists))) \<longleftrightarrow>
            answer \<in> {''Yes'', ''Y'', ''y''}) \<and>
         (answer \<notin> {''Yes'', ''Y'', ''y''} \<longrightarrow>
            delete_gists requests_delete answer args gists =
              ([Print AreYouSure, Print (WillBeDeleted (length gists)), Input ''[Y/n] ''],
               Inr ()))"
proof (cases "answer \<in> {''Yes'', ''Y'', ''y''}")
  case True
  from assms(1) obtain gist rest where gists: "gists = gist # rest" by (cases gists) auto
  from delete_gists_proceeds [OF assms(1), of args answer requests_delete] True
  obtain before after where "fst (delete_gists requests_delete answer args gists) =
      before @ fst (delete_loop requests_delete [] None gists) @ after"
    by blast
  then have "Delete gist \<in> set (fst (delete_gists requests_delete answer args gists))"
    using delete_loop_first_call [of gist requests_delete "[]" None rest] by (simp add: gists)
  with True show ?thesis by blast
next
  case False
  from delete_gists_declined [OF assms False, of requests_delete] False
  show ?thesis by simp
qed

theorem delete_gists_confirmation_witness:
  "[''a'', ''b''] \<noteq> [] \<and> \<not> force args_ask \<and>
   delete_gists delete_succeeds ''y'' args_ask [''a'', ''b''] =
     ([Print AreYouSure, Print (WillBeDeleted 2), Input ''[Y/n] '', Sleep 1, Delete ''a'',
       Sleep 1, Delete ''b'', Print GistsDeleted], Inr ()) \<and>
   delete_gists delete_succeeds ''yes'' args_ask [''a'', ''b''] =
     ([Print AreYouSure, Print (WillBeDeleted 2), Input ''[Y/n] ''], Inr ()) \<and>
   delete_gists delete_succeeds [] args_ask [''a'', ''b''] =
     ([Print AreYouSure, Print (WillBeDeleted 2), Input ''[Y/n] ''], Inr ())"
proof -
  have ne: "[''a'', ''b''] \<noteq> ([] :: string list)" and ask: "\<not> force args_ask"
    by (simp_all add: args_ask_def)
  have run: "delete_gists delete_succeeds ''y'' args_ask [''a'', ''b''] =
     ([Print AreYouSure, Print (WillBeDeleted 2), Input ''[Y/n] '', Sleep 1, Delete ''a'',
       Sleep 1, Delete ''b'', Print GistsDeleted], Inr ())"
    by (simp add: delete_gists_def delete_succeeds_def raise_for_status_def args_ask_def)
  from delete_gists_confirmation [OF ne ask, of delete_succeeds "''yes''"]
  have no1: "delete_gists delete_succeeds ''yes'' args_ask [''a'', ''b''] =
     ([Print AreYouSure, Print (WillBeDeleted 2), Input ''[Y/n] ''], Inr ())"
    by simp
  from delete_gists_confirmation [OF ne ask, of delete_succeeds "[]"]
  have no2: "delete_gists delete_succeeds [] args_ask [''a'', ''b''] =
     ([Print AreYouSure, Print (WillBeDeleted 2), Input ''[Y/n] ''], Inr ())"
    by simp
  from ne ask run no1 no2 show ?thesis by (intro conjI)
qed

text \<open>
  C9. On an empty id collection the run is the single message that no gists are
  eligible for deletion: no network call, no prompt and no wait, and no error.
\<close>

theorem delete_gists_nothing_to_delete:
  "delete_gists requests_delete answer args [] = ([Print NoGistsEligible], Inr ())"
  by (simp add: delete_gists_def)

theorem delete_gists_nothing_to_delete_witness:
  "delete_gists delete_fails_first ''y'' args_force [] = ([Print NoGistsEligible], Inr ()) \<and>
   delete_gists delete_succeeds ''Yes'' args_ask [] = ([Print NoGistsEligible], Inr ())"
  using delete_gists_nothing_to_delete [of delete_fails_first "''y''" args_force]
    delete_gists_nothing_to_delete [of delete_succeeds "''Yes''" args_ask]
  by (rule conjI)


section \<open>Properties of the fetch orchestrator\<close>

lemma fetch_loop_full:
  assumes "full_page strptime requests_get page"
  shows "fetch_loop strptime requests_get (page # pages) gists =
     (case fetch_loop strptime requests_get pages
             (gists @ gists_of_page strptime requests_get page) of
        (trace, result) \<Rightarrow> (Get 100 page # Sleep 1 # trace, result))"
  using assms
  by (auto simp: full_page_def fetch_page_def gists_of_page_def split: sum.splits)

lemma fetch_loop_not_full:
  assumes "\<not> full_page strptime requests_get page"
  shows "fetch_loop strptime requests_get (page # pages) gists =
     ([Get 100 page],
      case fetch_page strptime requests_get page of
        Inl e \<Rightarrow> Inl e
      | Inr short_page \<Rightarrow> Inr (gists @ short_page))"
  using assms
  by (auto simp: full_page_def fetch_page_def split: sum.splits)

lemma fetch_loop_all_full:
  assumes "\<forall>page\<in>set pages. full_page strptime requests_get page"
  shows "fetch_loop strptime requests_get pages gists =
     (concat (map (\<lambda>page. [Get 100 page, Sleep 1]) pages),
      Inr (gists @ concat (map (gists_of_page strptime requests_get) pages)))"
  using assms
  by (induction pages arbitrary: gists) (simp_all add: fetch_loop_full del: fetch_loop.simps(2))

lemma fetch_loop_until_short:
  assumes "\<forall>page\<in>set pages. full_page strptime requests_get page"
    and "\<not> full_page strptime requests_get final"
  shows "fetch_loop strptime requests_get (pages @ final # rest) gists =
     (concat (map (\<lambda>page. [Get 100 page, Sleep 1]) pages) @ [Get 100 final],
      case fetch_page strptime requests_get final of
        Inl e \<Rightarrow> Inl e
      | Inr final_gists \<Rightarrow>
          Inr (gists @ concat (map (gists_of_page strptime requests_get) pages) @ final_gists))"
  using assms
  by (induction pages arbitrary: gists)
    (simp_all add: fetch_loop_full fetch_loop_not_full del: fetch_loop.simps(2) split: sum.splits)

text \<open>
  The run of the fetch in full. \<open>k\<close> is the last page requested: every page before
  it is full, and it is the first page that is not full (short, or failed), or page 30.
\<close>

lemma fetch_gists_run:
  "\<exists>k. 1 \<le> k \<and> k \<le> 30 \<and>
       (\<forall>page\<in>{1..<k}. full_page strptime requests_get page) \<and>
       (k < 30 \<longrightarrow> \<not> full_page strptime requests_get k) \<and>
       fst (fetch_gists strptime requests_get) =
         concat (map (\<lambda>page. [Get 100 page, Sleep 1]) [1..<k]) @
         (if full_page strptime requests_get k then [Get 100 k, Sleep 1] else [Get 100 k]) \<and>
       snd (fetch_gists strptime requests_get) =
         (case fetch_page strptime requests_get k of
            Inl e \<Rightarrow> Inl e
          | Inr final_gists \<Rightarrow>
              Inr (concat (map (gists_of_page strptime requests_get) [1..<Suc k])))"
proof (cases "\<forall>page\<in>{1..<31}. full_page strptime requests_get page")
  case True
  then have all: "\<forall>page\<in>set [1..<31]. full_page strptime requests_get page" by simp
  have split: "[Suc 0..<31] = [Suc 0..<30] @ [30]"
    using upt_add_eq_append [of "Suc 0" 30 1] by simp
  from True have f30: "full_page strptime requests_get 30" by simp
  then obtain gs where gs: "fetch_page strptime requests_get 30 = Inr gs"
    by (auto simp: full_page_def split: sum.splits)
  have "fetch_gists strptime requests_get =
     (concat (map (\<lambda>page. [Get 100 page, Sleep 1]) [1..<31]),
      Inr (concat (map (gists_of_page strptime requests_get) [1..<31])))"
    using fetch_loop_all_full [OF all, of "[]"] by (simp add: fetch_gists_def)
  with True f30 gs show ?thesis
    by (intro exI [of _ 30]) (simp add: split)
next
  case False
  define k where "k = (LEAST page. 1 \<le> page \<and> \<not> full_page strptime requests_get page)"
  from False obtain p where p: "1 \<le> p" "p < 31" "\<not> full_page strptime requests_get p"
    by auto
  then have ex: "1 \<le> p \<and> \<not> full_page strptime requests_get p" by simp
  from LeastI [of "\<lambda>page. 1 \<le> page \<and> \<not> full_page strptime requests_get page", OF ex]
  have k1: "1 \<le> k" and short: "\<not> full_page strptime requests_get k"
    by (simp_all add: k_def)
  from Least_le [of "\<lambda>page. 1 \<le> page \<and> \<not> full_page strptime requests_get page", OF ex] p
  have k30: "k \<le> 30" by (simp add: k_def)
  have before: "full_page strptime requests_get page" if "page \<in> {1..<k}" for page
    using not_less_Least [of page "\<lambda>page. 1 \<le> page \<and> \<not> full_page strptime requests_get page"]
      that
    by (auto simp: k_def)
  then have pre: "\<forall>page\<in>set [1..<k]. full_page strptime requests_get page" by simp
  have "[1..<31] = [1..<k] @ [k..<31]"
    using k1 k30 upt_add_eq_append [of 1 k "31 - k"] by simp
  also have "[k..<31] = k # [Suc k..<31]"
    using k30 by (simp add: upt_conv_Cons)
  finally have split: "[1..<31] = [1..<k] @ k # [Suc k..<31]" .
  have Suc_k: "[1..<Suc k] = [1..<k] @ [k]" using k1 by simp
  have "fetch_gists strptime requests_get =
     (concat (map (\<lambda>page. [Get 100 page, Sleep 1]) [1..<k]) @ [Get 100 k],
      case fetch_page strptime requests_get k of
        Inl e \<Rightarrow> Inl e
      | Inr final_gists \<Rightarrow>
          Inr ([] @ concat (map (gists_of_page strptime requests_get) [1..<k]) @ final_gists))"
    unfolding fetch_gists_def split by (rule fetch_loop_until_short [OF pre short])
  with k1 k30 before short show ?thesis
    by (intro exI [of _ k]) (auto simp: Suc_k gists_of_page_def split: sum.splits)
qed


lemma requests_of_full_pages:
  "filter is_get (concat (map (\<lambda>page. [Get n page, Sleep m]) pages)) = map (Get n) pages"
  by (induction pages) simp_all

text \<open>
  C6. The requests of a fetch run are those of the pages 1 to \<open>k\<close>, each with page
  size 100, where \<open>k\<close> is at most 30, every page before \<open>k\<close> yields 30 records or
  more, and page \<open>k\<close> is the first that does not (it yields 29 or fewer, or fails)
  unless it is page 30. Unless page \<open>k\<close> fails, the result is the records of the
  pages 1 to \<open>k\<close>, page after page in the order within each page.
\<close>

theorem fetch_gists_pagination:
  "\<exists>k. 1 \<le> k \<and> k \<le> 30 \<and>
       filter is_get (fst (fetch_gists strptime requests_get)) = map (Get 100) [1..<Suc k] \<and>
       (\<forall>page\<in>{1..<k}. full_page strptime requests_get page) \<and>
       (k < 30 \<longrightarrow> \<not> full_page strptime requests_get k) \<and>
       snd (fetch_gists strptime requests_get) =
         (case fetch_page strptime requests_get k of
            Inl e \<Rightarrow> Inl e
          | Inr final_gists \<Rightarrow>
              Inr (concat (map (gists_of_page strptime requests_get) [1..<Suc k])))"
proof -
  from fetch_gists_run [of strptime requests_get] obtain k
    where k: "1 \<le> k" "k \<le> 30"
      and before: "\<forall>page\<in>{1..<k}. full_page strptime requests_get page"
      and final: "k < 30 \<longrightarrow> \<not> full_page strptime requests_get k"
      and trace: "fst (fetch_gists strptime requests_get) =
         concat (map (\<lambda>page. [Get 100 page, Sleep 1]) [1..<k]) @
         (if full_page strptime requests_get k then [Get 100 k, Sleep 1] else [Get 100 k])"
      and result: "snd (fetch_gists strptime requests_get) =
         (case fetch_page strptime requests_get k of
            Inl e \<Rightarrow> Inl e
          | Inr final_gists \<Rightarrow>
              Inr (concat (map (gists_of_page strptime requests_get) [1..<Suc k])))"
    by blast
  from k(1) have "filter is_get (fst (fetch_gists strptime requests_get)) =
      map (Get 100) [1..<Suc k]"
    by (simp add: trace requests_of_full_pages)
  with k before final result show ?thesis by blast
qed

lemma record_of_replicate:
  "create_gists strptime_padded (JArr (replicate n raw_python)) =
     Inr (replicate n \<lparr>gist_id = JStr ''68ae'', visibility = ''public'',
            language = JStr ''Python'', created_date = Date 2024 6 16\<rparr>)"
proof -
  have "\<forall>raw\<in>set (replicate n raw_python). record_of strptime_padded raw \<noteq> None"
    by (simp add: record_of_examples)
  from create_gists_loop_records [OF this, of "[]"] show ?thesis
    by (simp add: create_gists_def record_of_examples)
qed

lemma create_gists_raw_unknown:
  "create_gists strptime_padded (JArr [raw_unknown]) =
     Inr [\<lparr>gist_id = JStr ''3a9f'', visibility = ''secret'', language = JStr ''Unknown'',
            created_date = Date 2024 7 10\<rparr>]"
proof -
  have "\<forall>raw\<in>set [raw_unknown]. record_of strptime_padded raw \<noteq> None"
    by (simp add: record_of_examples)
  from create_gists_loop_records [OF this, of "[]"] show ?thesis
    by (simp add: create_gists_def record_of_examples)
qed

lemma get_two_pages_pages:
  "fetch_page strptime_padded get_two_pages 1 =
     Inr (replicate 30 \<lparr>gist_id = JStr ''68ae'', visibility = ''public'',
            language = JStr ''Python'', created_date = Date 2024 6 16\<rparr>)"
  "fetch_page strptime_padded get_two_pages 2 =
     Inr [\<lparr>gist_id = JStr ''3a9f'', visibility = ''secret'', language = JStr ''Unknown'',
            created_date = Date 2024 7 10\<rparr>]"
  "full_page strptime_padded get_two_pages 1"
  "\<not> full_page strptime_padded get_two_pages 2"
  by (simp_all add: full_page_def fetch_page_def get_two_pages_def raise_for_status_def
        record_of_replicate create_gists_raw_unknown)

lemma last_page_two:
  assumes "1 \<le> k"
    and "\<forall>page\<in>{1..<k}. full_page strptime_padded get_two_pages page"
    and "k < 30 \<longrightarrow> \<not> full_page strptime_padded get_two_pages k"
  shows "k = 2"
proof -
  have "k \<noteq> 1" using assms(3) get_two_pages_pages(3) by auto
  moreover have "\<not> 2 < k" using assms(2) get_two_pages_pages(4) by auto
  ultimately show ?thesis using assms(1) by linarith
qed

theorem fetch_gists_pagination_witness:
  "filter is_get (fst (fetch_gists strptime_padded get_two_pages)) = [Get 100 1, Get 100 2] \<and>
   snd (fetch_gists strptime_padded get_two_pages) =
     Inr (replicate 30 \<lparr>gist_id = JStr ''68ae'', visibility = ''public'',
            language = JStr ''Python'', created_date = Date 2024 6 16\<rparr> @
          [\<lparr>gist_id = JStr ''3a9f'', visibility = ''secret'', language = JStr ''Unknown'',
            created_date = Date 2024 7 10\<rparr>])"
proof -
  from fetch_gists_pagination [of strptime_padded get_two_pages] obtain k
    where k: "1 \<le> k"
      and requests: "filter is_get (fst (fetch_gists strptime_padded get_two_pages)) =
        map (Get 100) [1..<Suc k]"
      and before: "\<forall>page\<in>{1..<k}. full_page strptime_padded get_two_pages page"
      and final: "k < 30 \<longrightarrow> \<not> full_page strptime_padded get_two_pages k"
      and result: "snd (fetch_gists strptime_padded get_two_pages) =
         (case fetch_page strptime_padded get_two_pages k of
            Inl e \<Rightarrow> Inl e
          | Inr final_gists \<Rightarrow>
              Inr (concat (map (gists_of_page strptime_padded get_two_pages) [1..<Suc k])))"
    by blast
  have k2: "k = 2" by (rule last_page_two [OF k before final])
  have pages: "[1..<Suc 2] = [1, 2]" by (simp add: upt_rec)
  from requests result show ?thesis
    unfolding k2 pages
    by (simp add: get_two_pages_pages get_two_pages_pages [unfolded One_nat_def]
          gists_of_page_def)
qed

text \<open>
  C4, as the code has it. There is no wait before the first request, and one wait of 1
  after every page that yields 30 records or more: one wait between each pair of
  successive requests, none after a last page that yields 29 records or fewer (or
  fails), and one after page 30 when that page yields 30 records or more.
\<close>

theorem fetch_gists_pacing:
  "\<exists>k. 1 \<le> k \<and> k \<le> 30 \<and>
       (\<forall>page\<in>{1..<k}. full_page strptime requests_get page) \<and>
       (k < 30 \<longrightarrow> \<not> full_page strptime requests_get k) \<and>
       fst (fetch_gists strptime requests_get) =
         concat (map (\<lambda>page. [Get 100 page, Sleep 1]) [1..<k]) @
         (if full_page strptime requests_get k then [Get 100 k, Sleep 1] else [Get 100 k])"
  using fetch_gists_run [of strptime requests_get] by blast

theorem fetch_gists_pacing_witness:
  "fst (fetch_gists strptime_padded get_two_pages) = [Get 100 1, Sleep 1, Get 100 2]"
proof -
  from fetch_gists_pacing [of strptime_padded get_two_pages] obtain k
    where k: "1 \<le> k"
      and before: "\<forall>page\<in>{1..<k}. full_page strptime_padded get_two_pages page"
      and final: "k < 30 \<longrightarrow> \<not> full_page strptime_padded get_two_pages k"
      and trace: "fst (fetch_gists strptime_padded get_two_pages) =
         concat (map (\<lambda>page. [Get 100 page, Sleep 1]) [1..<k]) @
         (if full_page strptime_padded get_two_pages k then [Get 100 k, Sleep 1]
          else [Get 100 k])"
    by blast
  have k2: "k = 2" by (rule last_page_two [OF k before final])
  have pages: "[1..<2] = [1::nat]" by (simp add: upt_rec)
  from trace show ?thesis
    unfolding k2 pages
    by (simp add: get_two_pages_pages get_two_pages_pages [unfolded One_nat_def])
qed

lemma full_pages_run:
  "fst (fetch_gists strptime_padded get_full_pages) =
     concat (map (\<lambda>page. [Get 100 page, Sleep 1]) [1..<31])"
proof -
  have "\<forall>page\<in>set [1..<31]. full_page strptime_padded get_full_pages page"
    by (simp add: full_page_def fetch_page_def get_full_pages_def raise_for_status_def
          record_of_replicate)
  from fetch_loop_all_full [OF this, of "[]"] show ?thesis
    by (simp add: fetch_gists_def)
qed

lemma pages_1_to_30:
  "[1..<31] = [1, 2, 3, 4, 5, 6, 7, 8, 9, 10, 11, 12, 13, 14, 15, 16, 17, 18, 19, 20,
     21, 22, 23, 24, 25, 26, 27, 28, 29, 30 :: nat]"
  by (simp add: upt_rec)

text \<open>
  C4, as the claim states it, fails under the hard cap: when each of the 30 pages
  yields 30 records, the run has 30 requests and 30 waits, and it ends with the
  request of page 30 followed by a wait.
\<close>

theorem fetch_gists_wait_after_page_30:
  "length (fst (fetch_gists strptime_padded get_full_pages)) = 60 \<and>
   fst (fetch_gists strptime_padded get_full_pages) ! 58 = Get 100 30 \<and>
   fst (fetch_gists strptime_padded get_full_pages) ! 59 = Sleep 1 \<and>
   length (filter is_get (fst (fetch_gists strptime_padded get_full_pages))) = 30 \<and>
   count_list (fst (fetch_gists strptime_padded get_full_pages)) (Sleep 1) = 30"
  unfolding full_pages_run pages_1_to_30 by simp


end
